theory Spec2Isabelle
  imports Main "HOL-Library.Word"
begin

unbundle bit_operations_syntax

section \<open>Common types\<close>

text \<open>
  Go byte slices are lists of 8-bit words. Go strings are byte sequences as well; they are
  modelled as HOL strings, and the conversion \<open>[]byte(s)\<close> is \<open>bytes_of\<close>.
  A \<open>uuid.UUID\<close> is represented by its canonical text, so that \<open>id.String()\<close> is the
  identity. Points in time are natural numbers (a clock reading supplied by the caller of
  the model wherever the source calls \<open>time.Now()\<close>).
\<close>

type_synonym byte = "8 word"
type_synonym uuid = string
type_synonym time = nat

definition bytes_of :: "string \<Rightarrow> byte list" where
  "bytes_of s = map of_char s"

section \<open>Coordinator: the metadata store\<close>

text \<open>
  The rows of the coordinator's tables, with the columns of the migrations. A nullable
  column is an option. \<open>uptime_percentage\<close> is \<open>DECIMAL(5,2)\<close>: it is kept in
  hundredths. A table is the list of its rows in the order the database returns them.
\<close>

record StorageNode =
  node_ID :: uuid
  node_Name :: string
  node_PeerID :: string
  node_APIKeyHash :: string
  node_Status :: string
  TotalStorageBytes :: int
  UsedStorageBytes :: int
  EarnedCredits :: int
  UptimePercentage :: int
  LastHeartbeat :: "time option"
  node_UpdatedAt :: time

record Chunk =
  chunk_ID :: uuid
  chunk_FileID :: uuid
  ChunkIndex :: int
  chunk_Hash :: string
  chunk_SizeBytes :: int
  chunk_data :: "byte list"

record ChunkAssignment =
  asg_ID :: uuid
  asg_ChunkID :: uuid
  asg_NodeID :: uuid
  asg_Status :: string
  asg_CreatedAt :: time

record ProofChallenge =
  pc_ID :: uuid
  pc_ChunkID :: uuid
  pc_NodeID :: uuid
  pc_Seed :: "byte list"
  pc_Difficulty :: int
  pc_Status :: string
  pc_ProofHash :: "string option"
  pc_DurationMs :: "int option"
  pc_VerifiedAt :: "time option"

record coord_db =
  storage_nodes :: "StorageNode list"
  chunks :: "Chunk list"
  chunk_assignments :: "ChunkAssignment list"
  proof_challenges :: "ProofChallenge list"

datatype error =
    NotEnoughActiveNodes nat int
  | Panic
  | NodeNotFound
  | ChallengeNotFound
  | ProofTimedOut
  | InvalidProofHash
  | InsertChunkFailed
  | CreateAssignmentFailed
  | ChunkNotFound
  | ReadChunkFailed
  | CreateDirFailed
  | WriteChunkFailed
  | StoreMetadataFailed

section \<open>Coordinator: node registry and placement\<close>

text \<open>\<open>NodeService.GetAllNodes\<close>: the rows of \<open>storage_nodes\<close> with \<open>status = 'active'\<close>.\<close>

definition GetAllNodes :: "coord_db \<Rightarrow> StorageNode list" where
  "GetAllNodes db = filter (\<lambda>n. node_Status n = ''active'') (storage_nodes db)"

text \<open>
  \<open>ChunkService.SelectNodesForChunks\<close>: fails when fewer active nodes than
  \<open>replicaCount\<close> exist, otherwise returns \<open>nodes[:replicaCount]\<close>. A negative
  \<open>replicaCount\<close> passes the length test and the slice expression panics.
\<close>

definition SelectNodesForChunks :: "coord_db \<Rightarrow> int \<Rightarrow> error + StorageNode list" where
  "SelectNodesForChunks db replicaCount =
     (let nodes = GetAllNodes db in
      if int (length nodes) < replicaCount
        then Inl (NotEnoughActiveNodes (length nodes) replicaCount)
      else if replicaCount < 0 then Inl Panic
      else Inr (take (nat replicaCount) nodes))"

text \<open>
  The eligibility predicate in the words of the specification (section 4.1): status
  active, last heartbeat within the liveness window, free capacity at least the size of the
  ciphertext, and no assignment other than a deleted one binding the chunk to the peer.
\<close>

definition spec_eligible ::
  "coord_db \<Rightarrow> time \<Rightarrow> nat \<Rightarrow> uuid \<Rightarrow> int \<Rightarrow> StorageNode \<Rightarrow> bool" where
  "spec_eligible db now window chunk_id sz n \<longleftrightarrow>
     node_Status n = ''active'' \<and>
     (case LastHeartbeat n of None \<Rightarrow> False | Some t \<Rightarrow> now \<le> t + window) \<and>
     TotalStorageBytes n - UsedStorageBytes n \<ge> sz \<and>
     \<not> list_ex (\<lambda>a. asg_ChunkID a = chunk_id \<and> asg_NodeID a = node_ID n \<and>
                      asg_Status a \<noteq> ''deleted'') (chunk_assignments db)"

text \<open>
  A store with a single registered node: active, heartbeat just received, disk full.
\<close>

definition node_full :: StorageNode where
  "node_full = \<lparr> node_ID = ''n1'', node_Name = ''node one'', node_PeerID = ''peer1'',
     node_APIKeyHash = ''fsn_key1'', node_Status = ''active'', TotalStorageBytes = 10,
     UsedStorageBytes = 10, EarnedCredits = 0, UptimePercentage = 10000,
     LastHeartbeat = Some 100, node_UpdatedAt = 100 \<rparr>"

definition db_one_node :: coord_db where
  "db_one_node = \<lparr> storage_nodes = [node_full], chunks = [], chunk_assignments = [],
     proof_challenges = [] \<rparr>"

section \<open>SHA-256 and hexadecimal encoding\<close>

text \<open>
  \<open>crypto/sha256\<close> and \<open>encoding/hex\<close> of the Go standard library, as FIPS 180-4
  defines the hash: 32-bit words, a 64-byte block, 64 rounds. The round constants and
  the initial hash value are written in decimal.
\<close>

type_synonym u32 = "32 word"
type_synonym hstate = "u32 \<times> u32 \<times> u32 \<times> u32 \<times> u32 \<times> u32 \<times> u32 \<times> u32"

definition rotr :: "nat \<Rightarrow> u32 \<Rightarrow> u32" where
  "rotr n x = drop_bit n x OR push_bit (32 - n) x"

definition Ch :: "u32 \<Rightarrow> u32 \<Rightarrow> u32 \<Rightarrow> u32" where
  "Ch x y z = (x AND y) XOR (NOT x AND z)"

definition Maj :: "u32 \<Rightarrow> u32 \<Rightarrow> u32 \<Rightarrow> u32" where
  "Maj x y z = (x AND y) XOR (x AND z) XOR (y AND z)"

definition bsig0 :: "u32 \<Rightarrow> u32" where
  "bsig0 x = rotr 2 x XOR rotr 13 x XOR rotr 22 x"

definition bsig1 :: "u32 \<Rightarrow> u32" where
  "bsig1 x = rotr 6 x XOR rotr 11 x XOR rotr 25 x"

definition ssig0 :: "u32 \<Rightarrow> u32" where
  "ssig0 x = rotr 7 x XOR rotr 18 x XOR drop_bit 3 x"

definition ssig1 :: "u32 \<Rightarrow> u32" where
  "ssig1 x = rotr 17 x XOR rotr 19 x XOR drop_bit 10 x"

definition K256 :: "u32 list" where
  "K256 = [
   1116352408, 1899447441, 3049323471, 3921009573, 961987163, 1508970993, 2453635748, 2870763221,
   3624381080, 310598401, 607225278, 1426881987, 1925078388, 2162078206, 2614888103, 3248222580,
   3835390401, 4022224774, 264347078, 604807628, 770255983, 1249150122, 1555081692, 1996064986,
   2554220882, 2821834349, 2952996808, 3210313671, 3336571891, 3584528711, 113926993, 338241895,
   666307205, 773529912, 1294757372, 1396182291, 1695183700, 1986661051, 2177026350, 2456956037,
   2730485921, 2820302411, 3259730800, 3345764771, 3516065817, 3600352804, 4094571909, 275423344,
   430227734, 506948616, 659060556, 883997877, 958139571, 1322822218, 1537002063, 1747873779,
   1955562222, 2024104815, 2227730452, 2361852424, 2428436474, 2756734187, 3204031479, 3329325298]"

definition H0 :: hstate where
  "H0 = (1779033703, 3144134277, 1013904242, 2773480762,
         1359893119, 2600822924, 528734635, 1541459225)"

text \<open>One round on the working variables, with round constant \<open>k\<close> and schedule word \<open>w\<close>.\<close>

fun round256 :: "hstate \<Rightarrow> u32 \<times> u32 \<Rightarrow> hstate" where
  "round256 (a, b, c, d, e, f, g, h) (k, w) =
     (let t1 = h + bsig1 e + Ch e f g + k + w;
          t2 = bsig0 a + Maj a b c
      in (t1 + t2, a, b, c, d + t1, e, f, g))"

fun add_state :: "hstate \<Rightarrow> hstate \<Rightarrow> hstate" where
  "add_state (a, b, c, d, e, f, g, h) (a', b', c', d', e', f', g', h') =
     (a + a', b + b', c + c', d + d', e + e', f + f', g + g', h + h')"

text \<open>
  The message schedule, extended by \<open>n\<close> words. \<open>ws\<close> holds the words produced so far,
  newest first, so \<open>ws ! 1\<close> is W(t-2), \<open>ws ! 6\<close> is W(t-7), \<open>ws ! 14\<close> is W(t-15)
  and \<open>ws ! 15\<close> is W(t-16).
\<close>

fun schedule :: "nat \<Rightarrow> u32 list \<Rightarrow> u32 list" where
  "schedule 0 ws = ws"
| "schedule (Suc n) ws =
     schedule n ((ssig1 (ws ! 1) + ws ! 6 + ssig0 (ws ! 14) + ws ! 15) # ws)"

definition be_word :: "byte list \<Rightarrow> u32" where
  "be_word bs = foldl (\<lambda>acc b. push_bit 8 acc OR ucast b) 0 bs"

fun words_of :: "nat \<Rightarrow> byte list \<Rightarrow> u32 list" where
  "words_of 0 bs = []"
| "words_of (Suc n) bs = be_word (take 4 bs) # words_of n (drop 4 bs)"

definition compress :: "hstate \<Rightarrow> byte list \<Rightarrow> hstate" where
  "compress hs block =
     add_state hs (foldl round256 hs (zip K256 (rev (schedule 48 (rev (words_of 16 block))))))"

fun blocks :: "nat \<Rightarrow> hstate \<Rightarrow> byte list \<Rightarrow> hstate" where
  "blocks 0 hs bs = hs"
| "blocks (Suc n) hs bs = blocks n (compress hs (take 64 bs)) (drop 64 bs)"

text \<open>The \<open>k\<close> low-order bytes of \<open>v\<close>, most significant first.\<close>

definition be_bytes :: "nat \<Rightarrow> nat \<Rightarrow> byte list" where
  "be_bytes k v = map (\<lambda>i. of_nat (v div 256 ^ i)) (rev [0..<k])"

definition pad :: "byte list \<Rightarrow> byte list" where
  "pad m = m @ [0x80] @ replicate ((119 - length m mod 64) mod 64) 0 @ be_bytes 8 (8 * length m)"

fun state_bytes :: "hstate \<Rightarrow> byte list" where
  "state_bytes (a, b, c, d, e, f, g, h) =
     concat (map (\<lambda>w. be_bytes 4 (unat w)) [a, b, c, d, e, f, g, h])"

definition sha256 :: "byte list \<Rightarrow> byte list" where
  "sha256 m = state_bytes (blocks (length (pad m) div 64) H0 (pad m))"

definition hexdigit :: "nat \<Rightarrow> char" where
  "hexdigit n = ''0123456789abcdef'' ! n"

text \<open>\<open>hex.EncodeToString\<close>: two lower-case digits for each byte.\<close>

definition EncodeToString :: "byte list \<Rightarrow> string" where
  "EncodeToString bs = concat (map (\<lambda>b. [hexdigit (unat b div 16), hexdigit (unat b mod 16)]) bs)"

text \<open>
  The loop \<open>for i := 0; i < difficulty; i++ { hash := sha256.Sum256(data); data = hash[:] }\<close>.
\<close>

fun hash_loop :: "nat \<Rightarrow> byte list \<Rightarrow> byte list" where
  "hash_loop 0 d = d"
| "hash_loop (Suc n) d = hash_loop n (sha256 d)"

section \<open>Coordinator: heartbeat\<close>










section \<open>Coordinator: proof verification\<close>





text \<open>A store with one chunk and one pending challenge on it, as \<open>CreateChallenge\<close> writes it.\<close>

definition seed0 :: "byte list" where
  "seed0 = replicate 32 0"




section \<open>Coordinator: storing a chunk and its assignments\<close>

text \<open>
  \<open>INSERT INTO chunk_assignments (id, chunk_id, node_id)\<close>: the status column takes its
  default \<open>'active'\<close>. The insert is refused when the primary key or
  \<open>UNIQUE(chunk_id, node_id)\<close> is violated or the node does not exist.
\<close>

definition insert_assignment ::
  "time \<Rightarrow> uuid \<Rightarrow> uuid \<Rightarrow> uuid \<Rightarrow> coord_db \<Rightarrow> coord_db option" where
  "insert_assignment now aid chunkID nodeID db =
     (if list_ex (\<lambda>a. asg_ID a = aid) (chunk_assignments db) \<or>
         list_ex (\<lambda>a. asg_ChunkID a = chunkID \<and> asg_NodeID a = nodeID) (chunk_assignments db) \<or>
         \<not> list_ex (\<lambda>n. node_ID n = nodeID) (storage_nodes db)
      then None
      else Some (db\<lparr>chunk_assignments := chunk_assignments db @
                   [\<lparr> asg_ID = aid, asg_ChunkID = chunkID, asg_NodeID = nodeID,
                      asg_Status = ''active'', asg_CreatedAt = now \<rparr>]\<rparr>))"

text \<open>
  The loop over \<open>nodeIDs\<close>; \<open>ids i\<close> is the value of the \<open>i\<close>-th call of
  \<open>uuid.New()\<close>. The first refused insert ends the loop with an error; the rows written
  before it stay (there is no transaction).
\<close>

fun create_assignments ::
  "time \<Rightarrow> uuid \<Rightarrow> (nat \<Rightarrow> uuid) \<Rightarrow> nat \<Rightarrow> uuid list \<Rightarrow> coord_db \<Rightarrow> error option \<times> coord_db" where
  "create_assignments now chunkID ids i [] db = (None, db)"
| "create_assignments now chunkID ids i (nodeID # rest) db =
     (case insert_assignment now (ids i) chunkID nodeID db of
        None \<Rightarrow> (Some CreateAssignmentFailed, db)
      | Some db' \<Rightarrow> create_assignments now chunkID ids (Suc i) rest db')"

text \<open>
  \<open>ChunkService.StoreChunk\<close> of the coordinator. \<open>newID\<close> is the chunk's fresh id. The
  chunk insert is refused on a duplicate id or a duplicate \<open>(file_id, chunk_index)\<close>.
\<close>

definition StoreChunk_coord ::
  "coord_db \<Rightarrow> time \<Rightarrow> uuid \<Rightarrow> (nat \<Rightarrow> uuid) \<Rightarrow> uuid \<Rightarrow> int \<Rightarrow> byte list \<Rightarrow> uuid list
     \<Rightarrow> (error + Chunk) \<times> coord_db" where
  "StoreChunk_coord db now newID ids fileID chunkIndex data nodeIDs =
     (let chunk = \<lparr> chunk_ID = newID, chunk_FileID = fileID, ChunkIndex = chunkIndex,
                    chunk_Hash = EncodeToString (sha256 data),
                    chunk_SizeBytes = int (length data), chunk_data = data \<rparr>
      in if list_ex (\<lambda>c. chunk_ID c = newID \<or>
                          (chunk_FileID c = fileID \<and> ChunkIndex c = chunkIndex)) (chunks db)
         then (Inl InsertChunkFailed, db)
         else case create_assignments now newID ids 0 nodeIDs (db\<lparr>chunks := chunks db @ [chunk]\<rparr>) of
                (Some e, db') \<Rightarrow> (Inl e, db')
              | (None, db') \<Rightarrow> (Inr chunk, db'))"

text \<open>The store after the chunk \<open>hello\<close> of file \<open>f1\<close> has been stored for peer \<open>n1\<close>.\<close>

definition db_after_store :: coord_db where
  "db_after_store = \<lparr> storage_nodes = [node_full],
     chunks = [\<lparr> chunk_ID = ''c1'', chunk_FileID = ''f1'', ChunkIndex = 0,
                 chunk_Hash = EncodeToString (sha256 (bytes_of ''hello'')),
                 chunk_SizeBytes = 5, chunk_data = bytes_of ''hello'' \<rparr>],
     chunk_assignments = [\<lparr> asg_ID = ''a1'', asg_ChunkID = ''c1'', asg_NodeID = ''n1'',
                            asg_Status = ''active'', asg_CreatedAt = 200 \<rparr>],
     proof_challenges = [] \<rparr>"

section \<open>Storage node: the chunk store\<close>

text \<open>
  A row of the node's \<open>stored_chunks\<close> table, the table as the list of its rows, and
  the files below the chunk directory as a map from path to content.
\<close>

record StoredChunk =
  sc_ID :: string
  sc_FileID :: string
  sc_ChunkIndex :: int
  sc_Hash :: string
  sc_SizeBytes :: int
  sc_FilePath :: string
  sc_Status :: string
  sc_CreatedAt :: time
  sc_UpdatedAt :: time

record node_store =
  stored_chunks :: "StoredChunk list"
  disk :: "string \<rightharpoonup> byte list"
  chunkDir :: string

text \<open>
  What the environment does to one call of \<open>StoreChunk\<close>: nothing, or a failure of
  \<open>os.MkdirAll\<close>, of \<open>os.WriteFile\<close> (which leaves some content, or no file, at the
  path) or of the database statement.
\<close>

datatype fault = NoFault | MkdirFault | WriteFault "byte list option" | ExecFault

text \<open>\<open>fmt.Sprintf("%s/%s/%s", chunkDir, chunkID[:2], chunkID[2:4])\<close> followed by the id.\<close>

definition chunk_path :: "string \<Rightarrow> string \<Rightarrow> string" where
  "chunk_path dir chunkID =
     dir @ ''/'' @ take 2 chunkID @ ''/'' @ take 2 (drop 2 chunkID) @ ''/'' @ chunkID"

text \<open>
  \<open>INSERT ... ON CONFLICT(id) DO UPDATE\<close>: an existing row keeps its status and its
  creation time; a new row has status \<open>'active'\<close>.
\<close>

definition upsert_chunk ::
  "time \<Rightarrow> string \<Rightarrow> string \<Rightarrow> int \<Rightarrow> string \<Rightarrow> int \<Rightarrow> string \<Rightarrow> StoredChunk list
     \<Rightarrow> StoredChunk list" where
  "upsert_chunk now chunkID fileID chunkIndex hash sz filePath rows =
     (if list_ex (\<lambda>c. sc_ID c = chunkID) rows
      then map (\<lambda>c. if sc_ID c = chunkID
                     then c\<lparr>sc_FileID := fileID, sc_ChunkIndex := chunkIndex, sc_Hash := hash,
                            sc_SizeBytes := sz, sc_FilePath := filePath, sc_UpdatedAt := now\<rparr>
                     else c) rows
      else rows @ [\<lparr> sc_ID = chunkID, sc_FileID = fileID, sc_ChunkIndex = chunkIndex,
                     sc_Hash = hash, sc_SizeBytes = sz, sc_FilePath = filePath,
                     sc_Status = ''active'', sc_CreatedAt = now, sc_UpdatedAt = now \<rparr>])"

text \<open>
  \<open>ChunkService.StoreChunk\<close> of the storage node. An id shorter than four bytes makes
  the slice expressions panic. When the database statement fails the file is removed again.
  The supplied \<open>hash\<close> is recorded; it is not compared with anything.
\<close>

definition StoreChunk ::
  "fault \<Rightarrow> time \<Rightarrow> node_store \<Rightarrow> string \<Rightarrow> string \<Rightarrow> int \<Rightarrow> string \<Rightarrow> byte list
     \<Rightarrow> error option \<times> node_store" where
  "StoreChunk flt now s chunkID fileID chunkIndex hash data =
     (if length chunkID < 4 then (Some Panic, s)
      else let filePath = chunk_path (chunkDir s) chunkID in
        case flt of
          MkdirFault \<Rightarrow> (Some CreateDirFailed, s)
        | WriteFault left \<Rightarrow> (Some WriteChunkFailed, s\<lparr>disk := (disk s)(filePath := left)\<rparr>)
        | ExecFault \<Rightarrow> (Some StoreMetadataFailed, s\<lparr>disk := (disk s)(filePath := None)\<rparr>)
        | NoFault \<Rightarrow>
            (None, s\<lparr>disk := (disk s)(filePath \<mapsto> data),
                     stored_chunks := upsert_chunk now chunkID fileID chunkIndex hash
                                        (int (length data)) filePath (stored_chunks s)\<rparr>))"

text \<open>\<open>ChunkService.GetChunk\<close>: the row with the id, whatever its status.\<close>

definition GetChunk :: "node_store \<Rightarrow> string \<Rightarrow> error + StoredChunk" where
  "GetChunk s chunkID =
     (case find (\<lambda>c. sc_ID c = chunkID) (stored_chunks s) of
        None \<Rightarrow> Inl ChunkNotFound
      | Some c \<Rightarrow> Inr c)"

text \<open>\<open>ChunkService.GetChunkData\<close>: the content of the file the row points to.\<close>

definition GetChunkData :: "node_store \<Rightarrow> string \<Rightarrow> error + byte list" where
  "GetChunkData s chunkID =
     (case GetChunk s chunkID of
        Inl e \<Rightarrow> Inl e
      | Inr c \<Rightarrow> (case disk s (sc_FilePath c) of
                    None \<Rightarrow> Inl ReadChunkFailed
                  | Some d \<Rightarrow> Inr d))"

text \<open>\<open>ChunkService.DeleteChunk\<close>: \<open>UPDATE stored_chunks SET status = 'deleted'\<close>; the file stays.\<close>

definition DeleteChunk :: "time \<Rightarrow> node_store \<Rightarrow> string \<Rightarrow> node_store" where
  "DeleteChunk now s chunkID =
     s\<lparr>stored_chunks :=
         map (\<lambda>c. if sc_ID c = chunkID then c\<lparr>sc_Status := ''deleted'', sc_UpdatedAt := now\<rparr> else c)
           (stored_chunks s)\<rparr>"

text \<open>The queries that only see rows with status \<open>'active'\<close>.\<close>

definition ListChunks :: "node_store \<Rightarrow> StoredChunk list" where
  "ListChunks s = filter (\<lambda>c. sc_Status c = ''active'') (stored_chunks s)"

definition GetTotalStorage :: "node_store \<Rightarrow> int" where
  "GetTotalStorage s = sum_list (map sc_SizeBytes (ListChunks s))"

definition GetChunkCount :: "node_store \<Rightarrow> int" where
  "GetChunkCount s = int (length (ListChunks s))"





section \<open>Storage node: the proof engine\<close>

text \<open>
  \<open>ProofEngine.GenerateProof\<close>: the hash chain starts from the seed followed by the bytes
  of the chunk's recorded hash string. The measured duration is left out.
\<close>

definition GenerateProof :: "node_store \<Rightarrow> string \<Rightarrow> byte list \<Rightarrow> int \<Rightarrow> error + string" where
  "GenerateProof s chunkID seed difficulty =
     (case GetChunk s chunkID of
        Inl e \<Rightarrow> Inl ChunkNotFound
      | Inr chunk \<Rightarrow>
          Inr (EncodeToString (hash_loop (nat difficulty) (seed @ bytes_of (sc_Hash chunk)))))"

text \<open>
  The answer the specification asks for (section 4.4): SHA-256 applied \<open>difficulty\<close> times
  to the seed followed by the ciphertext, in lower-case hexadecimal.
\<close>

definition spec_proof :: "byte list \<Rightarrow> byte list \<Rightarrow> nat \<Rightarrow> string" where
  "spec_proof seed ciphertext difficulty = EncodeToString ((sha256 ^^ difficulty) (seed @ ciphertext))"

text \<open>An empty store, and the hash of \<open>hello\<close> as section 8 of the specification gives it.\<close>

definition store0 :: node_store where
  "store0 = \<lparr> stored_chunks = [], disk = Map.empty, chunkDir = ''data/chunks'' \<rparr>"

definition hello_hash :: string where
  "hello_hash = ''2cf24dba5fb0a30e26e83b2ac5b9e29e1b161e5c1fa7425e73043362938b9824''"

text \<open>The store after \<open>hello\<close> has been put under the id \<open>abcd1234\<close> at time 10.\<close>

definition store_hello :: node_store where
  "store_hello = \<lparr> stored_chunks =
       [\<lparr> sc_ID = ''abcd1234'', sc_FileID = ''f1'', sc_ChunkIndex = 0, sc_Hash = hello_hash,
          sc_SizeBytes = 5, sc_FilePath = ''data/chunks/ab/cd/abcd1234'', sc_Status = ''active'',
          sc_CreatedAt = 10, sc_UpdatedAt = 10 \<rparr>],
     disk = [''data/chunks/ab/cd/abcd1234'' \<mapsto> bytes_of ''hello''],
     chunkDir = ''data/chunks'' \<rparr>"




section \<open>Placement planner\<close>

lemma GetAllNodes_active: "n \<in> set (GetAllNodes db) \<Longrightarrow> node_Status n = ''active''"
  by (simp add: GetAllNodes_def)

text \<open>
  C6, as the code has it. For a replica count \<open>R \<ge> 0\<close> the planner fails exactly when
  fewer than \<open>R\<close> rows of \<open>storage_nodes\<close> have status active; otherwise it returns
  exactly the first \<open>R\<close> of the active rows, in table order, each with status active.
  Heartbeat age, free capacity and existing assignments are not consulted.
\<close>

theorem SelectNodesForChunks_active_prefix:
  assumes "0 \<le> R"
  shows "case SelectNodesForChunks db R of
           Inl e \<Rightarrow> int (length (GetAllNodes db)) < R
         | Inr ns \<Rightarrow> R \<le> int (length (GetAllNodes db)) \<and>
                     ns = take (nat R) (GetAllNodes db) \<and> int (length ns) = R \<and>
                     (\<forall>n \<in> set ns. node_Status n = ''active'')"
proof (cases "int (length (GetAllNodes db)) < R")
  case True
  then show ?thesis by (simp add: SelectNodesForChunks_def Let_def)
next
  case False
  have "set (take (nat R) (GetAllNodes db)) \<subseteq> set (GetAllNodes db)"
    by (rule set_take_subset)
  then have "\<forall>n \<in> set (take (nat R) (GetAllNodes db)). node_Status n = ''active''"
    using GetAllNodes_active by blast
  with False assms show ?thesis
    by (simp add: SelectNodesForChunks_def Let_def)
qed

theorem SelectNodesForChunks_active_prefix_witness:
  "(0::int) \<le> 1 \<and> SelectNodesForChunks db_one_node 1 = Inr [node_full] \<and>
   node_Status node_full = ''active''"
  using SelectNodesForChunks_active_prefix [of 1 db_one_node]
  by (simp add: SelectNodesForChunks_def GetAllNodes_def db_one_node_def node_full_def)

text \<open>
  C6 as stated fails: with one replica requested for a chunk of 5 bytes, the planner
  returns a peer whose free capacity is 0, which the specification does not count as
  eligible.
\<close>

theorem SelectNodesForChunks_ineligible_counterexample:
  "SelectNodesForChunks db_one_node 1 = Inr [node_full] \<and>
   \<not> spec_eligible db_one_node 100 90 ''c1'' 5 node_full"
  by (simp add: SelectNodesForChunks_def GetAllNodes_def db_one_node_def node_full_def
      spec_eligible_def)


section \<open>Heartbeat\<close>









section \<open>Proof verification\<close>

lemma length_be_bytes: "length (be_bytes k v) = k"
  by (simp add: be_bytes_def)

lemma length_state_bytes: "length (state_bytes st) = 32"
  by (induction st rule: state_bytes.induct) (simp add: length_be_bytes)

lemma length_sha256: "length (sha256 m) = 32"
  by (simp add: sha256_def length_state_bytes)

lemma length_EncodeToString: "length (EncodeToString bs) = 2 * length bs"
  by (induction bs) (simp_all add: EncodeToString_def)

















section \<open>Distribution of a chunk\<close>

lemma insert_assignment_shape:
  assumes "insert_assignment now aid cid n db = Some db'"
  shows "storage_nodes db' = storage_nodes db \<and> chunks db' = chunks db \<and>
         (\<exists>a. chunk_assignments db' = chunk_assignments db @ [a] \<and> asg_Status a = ''active'' \<and>
              asg_ChunkID a = cid \<and> asg_NodeID a = n)"
  using assms by (auto simp: insert_assignment_def split: if_splits)

lemma create_assignments_shape:
  assumes "create_assignments now cid ids i ns db = (r, db')"
  shows "storage_nodes db' = storage_nodes db \<and> chunks db' = chunks db \<and>
         (\<exists>new. chunk_assignments db' = chunk_assignments db @ new \<and>
            (\<forall>a \<in> set new. asg_Status a = ''active'' \<and> asg_ChunkID a = cid) \<and>
            map asg_NodeID new = take (length new) ns \<and>
            (r = None \<longrightarrow> length new = length ns))"
  using assms
proof (induction ns arbitrary: i db)
  case Nil
  then show ?case by simp
next
  case (Cons n ns)
  show ?case
  proof (cases "insert_assignment now (ids i) cid n db")
    case None
    with Cons.prems show ?thesis by auto
  next
    case (Some db1)
    with Cons.prems have rest: "create_assignments now cid ids (Suc i) ns db1 = (r, db')"
      by simp
    from insert_assignment_shape [OF Some] obtain a where
      a: "storage_nodes db1 = storage_nodes db" "chunks db1 = chunks db"
         "chunk_assignments db1 = chunk_assignments db @ [a]"
         "asg_Status a = ''active''" "asg_ChunkID a = cid" "asg_NodeID a = n"
      by blast
    from Cons.IH [OF rest] obtain new where
      new: "storage_nodes db' = storage_nodes db1" "chunks db' = chunks db1"
           "chunk_assignments db' = chunk_assignments db1 @ new"
           "\<forall>a \<in> set new. asg_Status a = ''active'' \<and> asg_ChunkID a = cid"
           "map asg_NodeID new = take (length new) ns"
           "r = None \<longrightarrow> length new = length ns"
      by blast
    have "chunk_assignments db' = chunk_assignments db @ (a # new)"
      using a new by simp
    moreover have "\<forall>b \<in> set (a # new). asg_Status b = ''active'' \<and> asg_ChunkID b = cid"
      using a new by simp
    moreover have "map asg_NodeID (a # new) = take (length (a # new)) (n # ns)"
      using a new by simp
    moreover have "r = None \<longrightarrow> length (a # new) = length (n # ns)"
      using new by simp
    ultimately show ?thesis
      using a new by (metis (no_types, lifting))
  qed
qed

text \<open>
  C3, as the code has it. Storing a chunk writes each per-peer assignment directly in
  state \<open>active\<close>, when the row is created and before any transfer to the peer: every
  assignment row added by the call is active and binds the new chunk to one of the
  requested peers, in the order requested; when the call succeeds there is one such row
  for every requested peer. No row of \<open>storage_nodes\<close> changes, so no peer's
  \<open>used_bytes\<close> is incremented.
\<close>

theorem StoreChunk_coord_assignments_active:
  assumes "StoreChunk_coord db now newID ids fileID idx data nodeIDs = (r, db')"
  shows "storage_nodes db' = storage_nodes db \<and>
         (\<exists>new. chunk_assignments db' = chunk_assignments db @ new \<and>
            (\<forall>a \<in> set new. asg_Status a = ''active'' \<and> asg_ChunkID a = newID) \<and>
            map asg_NodeID new = take (length new) nodeIDs \<and>
            ((\<exists>c. r = Inr c) \<longrightarrow> map asg_NodeID new = nodeIDs))"
proof (cases "list_ex (\<lambda>c. chunk_ID c = newID \<or> (chunk_FileID c = fileID \<and> ChunkIndex c = idx))
                (chunks db)")
  case True
  with assms have "db' = db" "r = Inl InsertChunkFailed"
    by (simp_all add: StoreChunk_coord_def)
  then show ?thesis by simp
next
  case False
  let ?chunk = "\<lparr> chunk_ID = newID, chunk_FileID = fileID, ChunkIndex = idx,
                  chunk_Hash = EncodeToString (sha256 data),
                  chunk_SizeBytes = int (length data), chunk_data = data \<rparr>"
  let ?db1 = "db\<lparr>chunks := chunks db @ [?chunk]\<rparr>"
  obtain e where run: "create_assignments now newID ids 0 nodeIDs ?db1 = (e, db')"
    and r: "r = (case e of Some x \<Rightarrow> Inl x | None \<Rightarrow> Inr ?chunk)"
    using assms False
    by (auto simp: StoreChunk_coord_def Let_def split: prod.splits option.splits)
  from create_assignments_shape [OF run] obtain new where
    new: "storage_nodes db' = storage_nodes ?db1"
         "chunk_assignments db' = chunk_assignments ?db1 @ new"
         "\<forall>a \<in> set new. asg_Status a = ''active'' \<and> asg_ChunkID a = newID"
         "map asg_NodeID new = take (length new) nodeIDs"
         "e = None \<longrightarrow> length new = length nodeIDs"
    by blast
  have "(\<exists>c. r = Inr c) \<longrightarrow> map asg_NodeID new = nodeIDs"
    using r new(4,5) by (cases e) simp_all
  with new show ?thesis by auto
qed

theorem StoreChunk_coord_assignments_active_witness:
  "StoreChunk_coord db_one_node 200 ''c1'' (\<lambda>i. ''a1'') ''f1'' 0 (bytes_of ''hello'') [''n1''] =
     (Inr \<lparr> chunk_ID = ''c1'', chunk_FileID = ''f1'', ChunkIndex = 0,
            chunk_Hash = EncodeToString (sha256 (bytes_of ''hello'')),
            chunk_SizeBytes = 5, chunk_data = bytes_of ''hello'' \<rparr>,
      db_after_store) \<and>
   storage_nodes db_after_store = storage_nodes db_one_node \<and>
   (\<exists>new. chunk_assignments db_after_store = chunk_assignments db_one_node @ new \<and>
      (\<forall>a \<in> set new. asg_Status a = ''active'' \<and> asg_ChunkID a = ''c1'') \<and>
      map asg_NodeID new = [''n1''])"
proof -
  have run: "StoreChunk_coord db_one_node 200 ''c1'' (\<lambda>i. ''a1'') ''f1'' 0 (bytes_of ''hello'') [''n1''] =
     (Inr \<lparr> chunk_ID = ''c1'', chunk_FileID = ''f1'', ChunkIndex = 0,
            chunk_Hash = EncodeToString (sha256 (bytes_of ''hello'')),
            chunk_SizeBytes = 5, chunk_data = bytes_of ''hello'' \<rparr>,
      db_after_store)"
    by (simp add: StoreChunk_coord_def insert_assignment_def db_one_node_def node_full_def
        db_after_store_def bytes_of_def Let_def)
  from StoreChunk_coord_assignments_active [OF run] run show ?thesis
    by auto
qed

text \<open>
  C3 as stated fails: the assignment that \<open>StoreChunk\<close> has just created for peer
  \<open>n1\<close> is active, not pending, although nothing has been sent to the peer and its
  used bytes are what they were.
\<close>

theorem StoreChunk_coord_pending_counterexample:
  "snd (StoreChunk_coord db_one_node 200 ''c1'' (\<lambda>i. ''a1'') ''f1'' 0 (bytes_of ''hello'') [''n1''])
     = db_after_store \<and>
   map (\<lambda>a. (asg_NodeID a, asg_Status a)) (chunk_assignments db_after_store) = [(''n1'', ''active'')] \<and>
   map UsedStorageBytes (storage_nodes db_after_store) = map UsedStorageBytes (storage_nodes db_one_node)"
  by (simp add: StoreChunk_coord_def insert_assignment_def db_one_node_def node_full_def
      db_after_store_def bytes_of_def Let_def)

section \<open>The chunk store\<close>


lemma find_upsert_same:
  "\<exists>row. find (\<lambda>c. sc_ID c = cid) (upsert_chunk now cid fid idx h sz p rows) = Some row \<and>
         sc_Hash row = h \<and> sc_SizeBytes row = sz \<and> sc_FilePath row = p \<and> sc_FileID row = fid \<and>
         sc_ChunkIndex row = idx"
proof (induction rows)
  case Nil
  then show ?case by (simp add: upsert_chunk_def)
next
  case (Cons r rows)
  show ?case
  proof (cases "sc_ID r = cid")
    case True
    then show ?thesis by (simp add: upsert_chunk_def)
  next
    case False
    with Cons show ?thesis
      by (auto simp: upsert_chunk_def split: if_splits)
  qed
qed




lemma find_delete_path:
  "map_option sc_FilePath (find (\<lambda>c. sc_ID c = cid) (stored_chunks (DeleteChunk now s cid'))) =
   map_option sc_FilePath (find (\<lambda>c. sc_ID c = cid) (stored_chunks s))"
proof -
  have "map_option sc_FilePath
     (find (\<lambda>c. sc_ID c = cid)
        (map (\<lambda>c. if sc_ID c = cid' then c\<lparr>sc_Status := ''deleted'', sc_UpdatedAt := now\<rparr> else c) rows))
   = map_option sc_FilePath (find (\<lambda>c. sc_ID c = cid) rows)" for rows
    by (induction rows) auto
  then show ?thesis by (simp add: DeleteChunk_def)
qed

text \<open>What a reader of chunk \<open>cid\<close> depends on: the path its row records and the bytes there.\<close>

lemma GetChunkData_iff:
  "GetChunkData s cid = Inr data \<longleftrightarrow>
     (\<exists>p. map_option sc_FilePath (find (\<lambda>c. sc_ID c = cid) (stored_chunks s)) = Some p \<and>
          disk s p = Some data)"
  by (auto simp: GetChunkData_def GetChunk_def split: option.splits)

lemma StoreChunk_ok_iff:
  "fst (StoreChunk flt now s cid fid idx h data) = None \<longleftrightarrow> flt = NoFault \<and> 4 \<le> length cid"
  by (cases flt) (simp_all add: StoreChunk_def Let_def)

lemma StoreChunk_holds:
  assumes "fst (StoreChunk flt now s cid fid idx h data) = None"
  shows "map_option sc_FilePath
           (find (\<lambda>c. sc_ID c = cid) (stored_chunks (snd (StoreChunk flt now s cid fid idx h data))))
           = Some (chunk_path (chunkDir s) cid) \<and>
         disk (snd (StoreChunk flt now s cid fid idx h data)) (chunk_path (chunkDir s) cid) = Some data \<and>
         chunkDir (snd (StoreChunk flt now s cid fid idx h data)) = chunkDir s"
proof -
  from assms have ok: "flt = NoFault" "4 \<le> length cid"
    by (simp_all add: StoreChunk_ok_iff)
  obtain row where
    "find (\<lambda>c. sc_ID c = cid)
       (upsert_chunk now cid fid idx h (int (length data)) (chunk_path (chunkDir s) cid)
          (stored_chunks s)) = Some row"
    "sc_FilePath row = chunk_path (chunkDir s) cid"
    using find_upsert_same by blast
  with ok show ?thesis
    by (simp add: StoreChunk_def Let_def)
qed





lemma neq_by_length: "length a \<noteq> length b \<Longrightarrow> a \<noteq> b"
  by auto

text \<open>
  C5 fails on the code. \<open>DeleteChunk\<close> marks the row deleted, and the chunk no longer
  appears in \<open>ListChunks\<close> or in the chunk count; but \<open>GetChunk\<close> selects by id
  without looking at the status and the file is not unlinked, so \<open>get\<close> after
  \<open>put\<close> and \<open>delete\<close> returns the stored bytes instead of not-found.
\<close>

theorem put_delete_get_returns_bytes:
  "fst (StoreChunk NoFault 10 store0 ''abcd1234'' ''f1'' 0 hello_hash (bytes_of ''hello'')) = None \<and>
   GetChunkData
     (DeleteChunk 20
        (snd (StoreChunk NoFault 10 store0 ''abcd1234'' ''f1'' 0 hello_hash (bytes_of ''hello'')))
        ''abcd1234'') ''abcd1234'' = Inr (bytes_of ''hello'') \<and>
   map_option sc_Status (find (\<lambda>c. sc_ID c = ''abcd1234'')
     (stored_chunks (DeleteChunk 20
        (snd (StoreChunk NoFault 10 store0 ''abcd1234'' ''f1'' 0 hello_hash (bytes_of ''hello'')))
        ''abcd1234''))) = Some ''deleted'' \<and>
   ListChunks
     (DeleteChunk 20
        (snd (StoreChunk NoFault 10 store0 ''abcd1234'' ''f1'' 0 hello_hash (bytes_of ''hello'')))
        ''abcd1234'') = [] \<and>
   GetChunkCount
     (DeleteChunk 20
        (snd (StoreChunk NoFault 10 store0 ''abcd1234'' ''f1'' 0 hello_hash (bytes_of ''hello'')))
        ''abcd1234'') = 0"
  by (simp add: StoreChunk_def Let_def store0_def upsert_chunk_def chunk_path_def DeleteChunk_def
      GetChunkData_def GetChunk_def ListChunks_def GetChunkCount_def)

text \<open>
  The same for every store and every chunk: whenever \<open>put\<close> has returned without error,
  \<open>get\<close> after a following \<open>delete\<close> of the same id still returns the bytes.
\<close>

lemma put_delete_get_general:
  assumes "fst (StoreChunk flt now s cid fid idx h data) = None"
  shows "GetChunkData (DeleteChunk now' (snd (StoreChunk flt now s cid fid idx h data)) cid) cid =
         Inr data"
proof -
  from StoreChunk_holds [OF assms] show ?thesis
    unfolding GetChunkData_iff find_delete_path by (auto simp: DeleteChunk_def)
qed

section \<open>Hash checking on put\<close>

lemma GetChunk_Inr_iff:
  "GetChunk s cid = Inr row \<longleftrightarrow> find (\<lambda>c. sc_ID c = cid) (stored_chunks s) = Some row"
  by (simp add: GetChunk_def split: option.splits)

text \<open>
  C4, as the code has it. \<open>put\<close> does not compute any hash: with an id of at least four
  bytes and no fault of the file system or the database it succeeds whatever hash is
  supplied, and afterwards the chunk's row records the supplied hash as given and the
  length of the bytes, and \<open>get\<close> returns the bytes.
\<close>

theorem StoreChunk_records_supplied_hash:
  assumes "4 \<le> length cid"
  shows "fst (StoreChunk NoFault now s cid fid idx h data) = None \<and>
         (\<exists>row. GetChunk (snd (StoreChunk NoFault now s cid fid idx h data)) cid = Inr row \<and>
                sc_Hash row = h \<and> sc_SizeBytes row = int (length data)) \<and>
         GetChunkData (snd (StoreChunk NoFault now s cid fid idx h data)) cid = Inr data"
proof -
  have ok: "fst (StoreChunk NoFault now s cid fid idx h data) = None"
    using assms by (simp add: StoreChunk_ok_iff)
  obtain row where
    "find (\<lambda>c. sc_ID c = cid)
       (upsert_chunk now cid fid idx h (int (length data)) (chunk_path (chunkDir s) cid)
          (stored_chunks s)) = Some row"
    "sc_Hash row = h" "sc_SizeBytes row = int (length data)"
    using find_upsert_same by blast
  then have "\<exists>row. GetChunk (snd (StoreChunk NoFault now s cid fid idx h data)) cid = Inr row \<and>
                sc_Hash row = h \<and> sc_SizeBytes row = int (length data)"
    using assms by (simp add: GetChunk_Inr_iff StoreChunk_def Let_def)
  moreover have "GetChunkData (snd (StoreChunk NoFault now s cid fid idx h data)) cid = Inr data"
    using StoreChunk_holds [OF ok] unfolding GetChunkData_iff by blast
  ultimately show ?thesis
    using ok by blast
qed

theorem StoreChunk_records_supplied_hash_witness:
  "4 \<le> length ''abcd1234'' \<and>
   fst (StoreChunk NoFault 10 store0 ''abcd1234'' ''f1'' 0 ''aabbccdd'' (bytes_of ''hello'')) = None \<and>
   (\<exists>row. GetChunk (snd (StoreChunk NoFault 10 store0 ''abcd1234'' ''f1'' 0 ''aabbccdd''
                           (bytes_of ''hello''))) ''abcd1234'' = Inr row \<and>
          sc_Hash row = ''aabbccdd'' \<and> sc_SizeBytes row = int (length (bytes_of ''hello'')))"
proof -
  have len: "4 \<le> length ''abcd1234''" by simp
  from StoreChunk_records_supplied_hash [OF len, of 10 store0 "''f1''" 0 "''aabbccdd''"
      "bytes_of ''hello''"] len
  show ?thesis by blast
qed

text \<open>
  C4 as stated fails: \<open>put\<close> of the bytes \<open>hello\<close> with the hash \<open>aabbccdd\<close>, which
  is not their SHA-256, is accepted, and the store then holds a chunk whose recorded hash
  differs from the hash of its bytes.
\<close>

theorem StoreChunk_hash_mismatch_counterexample:
  "''aabbccdd'' \<noteq> EncodeToString (sha256 (bytes_of ''hello'')) \<and>
   fst (StoreChunk NoFault 10 store0 ''abcd1234'' ''f1'' 0 ''aabbccdd'' (bytes_of ''hello'')) = None \<and>
   map_option sc_Hash
     (find (\<lambda>c. sc_ID c = ''abcd1234'')
        (stored_chunks (snd (StoreChunk NoFault 10 store0 ''abcd1234'' ''f1'' 0 ''aabbccdd''
                               (bytes_of ''hello''))))) = Some ''aabbccdd'' \<and>
   GetChunkData (snd (StoreChunk NoFault 10 store0 ''abcd1234'' ''f1'' 0 ''aabbccdd''
                        (bytes_of ''hello''))) ''abcd1234'' = Inr (bytes_of ''hello'')"
proof -
  have "''aabbccdd'' \<noteq> EncodeToString (sha256 (bytes_of ''hello''))"
    by (rule neq_by_length) (simp add: length_EncodeToString length_sha256)
  then show ?thesis
    by (simp add: StoreChunk_def Let_def store0_def upsert_chunk_def chunk_path_def
        GetChunkData_def GetChunk_def)
qed

section \<open>Evaluating SHA-256\<close>

text \<open>
  Rewrite rules that let the simplifier run the hash on a concrete message: recursion on
  numerals, and the reduction of a word numeral to its residue.
\<close>

lemma replicate_num: "replicate (numeral k) x = x # replicate (pred_numeral k) x"
  by (simp add: numeral_eq_Suc)

lemma words_of_num:
  "words_of (numeral k) bs = be_word (take 4 bs) # words_of (pred_numeral k) (drop 4 bs)"
  by (simp add: numeral_eq_Suc)

lemma schedule_num:
  "schedule (numeral k) ws =
     schedule (pred_numeral k) ((ssig1 (ws ! 1) + ws ! 6 + ssig0 (ws ! 14) + ws ! 15) # ws)"
  by (simp add: numeral_eq_Suc)

lemma blocks_num:
  "blocks (numeral k) hs bs = blocks (pred_numeral k) (compress hs (take 64 bs)) (drop 64 bs)"
  by (simp add: numeral_eq_Suc)

lemma rev_upt_4: "rev [0..<4::nat] = [3, 2, 1, 0]"
  by (simp add: upt_conv_Cons)

lemma rev_upt_8: "rev [0..<8::nat] = [7, 6, 5, 4, 3, 2, 1, 0]"
  by (simp add: upt_conv_Cons)

lemma be_bytes_4:
  "be_bytes 4 v = [of_nat (v div 16777216), of_nat (v div 65536), of_nat (v div 256), of_nat v]"
  by (simp add: be_bytes_def rev_upt_4)

lemma be_bytes_8:
  "be_bytes 8 v = [of_nat (v div 72057594037927936), of_nat (v div 281474976710656),
     of_nat (v div 1099511627776), of_nat (v div 4294967296),
     of_nat (v div 16777216), of_nat (v div 65536), of_nat (v div 256), of_nat v]"
  by (simp add: be_bytes_def rev_upt_8)

lemma word_of_nat_mod: "(word_of_nat (m mod 2 ^ LENGTH('a)) :: 'a::len word) = word_of_nat m"
  by (simp add: word_of_nat_eq_iff take_bit_eq_mod)

lemma word32_reduce:
  "4294967296 \<le> (numeral n :: nat) \<Longrightarrow>
     (numeral n :: 32 word) = of_nat (numeral n mod 4294967296)"
  using word_of_nat_mod [where 'a = 32, of "numeral n"] by simp

lemma word8_reduce:
  "256 \<le> (numeral n :: nat) \<Longrightarrow> (numeral n :: 8 word) = of_nat (numeral n mod 256)"
  using word_of_nat_mod [where 'a = 8, of "numeral n"] by simp

lemmas sha_eval = sha256_def pad_def be_bytes_8 be_bytes_4 replicate_num blocks_num words_of_num
  be_word_def compress_def schedule_num K256_def H0_def ssig0_def ssig1_def bsig0_def bsig1_def
  Ch_def Maj_def rotr_def word32_reduce word8_reduce EncodeToString_def hexdigit_def bytes_of_def

text \<open>The hash of \<open>hello\<close> is the one section 8 of the specification gives.\<close>

lemma sha256_hello: "EncodeToString (sha256 (bytes_of ''hello'')) = hello_hash"
  by (simp add: sha_eval hello_hash_def)


lemma canonical_hello_1:
  "spec_proof seed0 (bytes_of ''hello'') 1 = ''a41de667c15557cbd8acdd71ef0fef5dc73561374baed8330f8adb0e1424cd62''"
  by (simp add: sha_eval spec_proof_def seed0_def)

lemma peer_chain_1:
  "EncodeToString (sha256 (seed0 @ bytes_of hello_hash)) = ''2e919fd10ec3fd73822a348e85993742c05d1ebe341b4a00b101ef084ced5781''"
  by (simp add: sha_eval seed0_def hello_hash_def)

section \<open>Proofs of storage\<close>

lemma hash_loop_funpow: "hash_loop n d = (sha256 ^^ n) d"
  by (induction n arbitrary: d) (simp_all add: funpow_swap1)

lemma length_bytes_of: "length (bytes_of s) = length s"
  by (simp add: bytes_of_def)

lemma GetChunk_disk: "GetChunk (s\<lparr>disk := dk\<rparr>) cid = GetChunk s cid"
  by (simp add: GetChunk_def)

lemma GetChunk_store_hello:
  "GetChunk store_hello ''abcd1234'' =
     Inr \<lparr> sc_ID = ''abcd1234'', sc_FileID = ''f1'', sc_ChunkIndex = 0, sc_Hash = hello_hash,
            sc_SizeBytes = 5, sc_FilePath = ''data/chunks/ab/cd/abcd1234'', sc_Status = ''active'',
            sc_CreatedAt = 10, sc_UpdatedAt = 10 \<rparr>"
  by (simp add: GetChunk_def store_hello_def)

lemma GetChunkData_store_hello:
  "GetChunkData store_hello ''abcd1234'' = Inr (bytes_of ''hello'')"
  by (simp add: GetChunkData_def GetChunk_def store_hello_def)

text \<open>
  C1, as the code has it. For every chunk with a row in the peer's index, every seed and
  every difficulty, \<open>GenerateProof\<close> returns the lower-case hexadecimal encoding of
  SHA-256 applied \<open>difficulty\<close> times (not at all for a difficulty below 1) to the seed
  followed by the bytes of the chunk's recorded hash string. The chunk's file is not
  read: the result is the same whatever the files contain.
\<close>

theorem GenerateProof_hashes_recorded_hash:
  assumes "GetChunk s cid = Inr c"
  shows "GenerateProof s cid seed d = Inr (spec_proof seed (bytes_of (sc_Hash c)) (nat d)) \<and>
         GenerateProof (s\<lparr>disk := dk\<rparr>) cid seed d = GenerateProof s cid seed d"
  using assms by (simp add: GenerateProof_def GetChunk_disk spec_proof_def hash_loop_funpow)

theorem GenerateProof_hashes_recorded_hash_witness:
  "GetChunk store_hello ''abcd1234'' =
     Inr \<lparr> sc_ID = ''abcd1234'', sc_FileID = ''f1'', sc_ChunkIndex = 0, sc_Hash = hello_hash,
            sc_SizeBytes = 5, sc_FilePath = ''data/chunks/ab/cd/abcd1234'', sc_Status = ''active'',
            sc_CreatedAt = 10, sc_UpdatedAt = 10 \<rparr> \<and>
   GenerateProof store_hello ''abcd1234'' seed0 1000 = Inr (spec_proof seed0 (bytes_of hello_hash) 1000) \<and>
   GenerateProof (store_hello\<lparr>disk := Map.empty\<rparr>) ''abcd1234'' seed0 1000 =
     GenerateProof store_hello ''abcd1234'' seed0 1000"
  using GenerateProof_hashes_recorded_hash [OF GetChunk_store_hello, of seed0 1000 Map.empty]
    GetChunk_store_hello
  by simp

lemma GenerateProof_store_hello_1:
  "GenerateProof store_hello ''abcd1234'' seed0 1 = Inr ''2e919fd10ec3fd73822a348e85993742c05d1ebe341b4a00b101ef084ced5781''"
  using peer_chain_1 by (simp add: GenerateProof_def GetChunk_store_hello)

text \<open>
  C1 as stated fails: the peer holds the ciphertext \<open>hello\<close> under \<open>abcd1234\<close>, with its
  SHA-256 as recorded hash. For the seed of 32 zero bytes and difficulty 1 the engine
  answers \<open>2e919fd1...\<close>, the hash of the seed followed by the 64 characters of the
  recorded hash, while SHA-256 of the seed followed by the ciphertext is \<open>a41de667...\<close>.
\<close>

theorem GenerateProof_ciphertext_counterexample:
  "GetChunkData store_hello ''abcd1234'' = Inr (bytes_of ''hello'') \<and>
   map_option sc_Hash (find (\<lambda>c. sc_ID c = ''abcd1234'') (stored_chunks store_hello)) =
     Some (EncodeToString (sha256 (bytes_of ''hello''))) \<and>
   GenerateProof store_hello ''abcd1234'' seed0 1 =
     Inr ''2e919fd10ec3fd73822a348e85993742c05d1ebe341b4a00b101ef084ced5781'' \<and>
   spec_proof seed0 (bytes_of ''hello'') 1 =
     ''a41de667c15557cbd8acdd71ef0fef5dc73561374baed8330f8adb0e1424cd62'' \<and>
   GenerateProof store_hello ''abcd1234'' seed0 1 \<noteq> Inr (spec_proof seed0 (bytes_of ''hello'') 1)"
proof -
  have "map_option sc_Hash (find (\<lambda>c. sc_ID c = ''abcd1234'') (stored_chunks store_hello)) =
     Some (EncodeToString (sha256 (bytes_of ''hello'')))"
    by (simp add: sha256_hello store_hello_def)
  with canonical_hello_1 show ?thesis
    by (simp add: GenerateProof_store_hello_1 GetChunkData_store_hello)
qed





end
